theory Spec2Isabelle
  imports Main
begin

section \<open>NumPy arrays as strided views on a store\<close>

text \<open>
  The notebook \<^verbatim>\<open>Matrices_5_6.ipynb\<close> works on NumPy arrays. A NumPy array is a view:
  a data buffer together with an offset, a shape and one stride per axis. Slicing,
  \<^verbatim>\<open>flipud\<close>, \<^verbatim>\<open>fliplr\<close>, \<^verbatim>\<open>flip\<close> and \<^verbatim>\<open>transpose\<close> build new views on the same
  buffer, and an indexed assignment writes through a view into the buffer. Two arrays may
  share a buffer, so the buffers live in an explicit store and an array names its buffer.
  Strides and offsets count elements. Elements are integers, compared exactly.
\<close>

datatype py_error = IndexError | ValueError

type_synonym store = "int list list"

record ndarray =
  base :: nat
  offset :: int
  shape :: "nat list"
  strides :: "int list"

definition ndim :: "ndarray \<Rightarrow> nat" where
  "ndim a = length (shape a)"

text \<open>Every array NumPy builds has one stride per axis.\<close>

definition well_formed :: "ndarray \<Rightarrow> bool" where
  "well_formed a = (length (strides a) = length (shape a))"

text \<open>The row-major strides of a freshly allocated array, and \<^verbatim>\<open>np.array\<close> on buffer \<open>b\<close>.\<close>

fun c_strides :: "nat list \<Rightarrow> int list" where
  "c_strides [] = []"
| "c_strides (n # ns) = int (prod_list ns) # c_strides ns"

definition np_array :: "nat \<Rightarrow> nat list \<Rightarrow> ndarray" where
  "np_array b shp = \<lparr>base = b, offset = 0, shape = shp, strides = c_strides shp\<rparr>"

text \<open>The place of the element at a multi-index inside the buffer, and its value.\<close>

definition position :: "ndarray \<Rightarrow> nat list \<Rightarrow> nat" where
  "position a idx = nat (offset a + sum_list (map2 (\<lambda>i s. int i * s) idx (strides a)))"

definition item :: "store \<Rightarrow> ndarray \<Rightarrow> nat list \<Rightarrow> int" where
  "item \<sigma> a idx = (\<sigma> ! base a) ! position a idx"

text \<open>All multi-indices of a shape in row-major order, NumPy's native traversal.\<close>

fun ndindex :: "nat list \<Rightarrow> nat list list" where
  "ndindex [] = [[]]"
| "ndindex (n # ns) = concat (map (\<lambda>i. map ((#) i) (ndindex ns)) [0..<n])"

text \<open>The elements of an array in row-major order (\<^verbatim>\<open>a.ravel().tolist()\<close>).\<close>

definition elements :: "store \<Rightarrow> ndarray \<Rightarrow> int list" where
  "elements \<sigma> a = map (item \<sigma> a) (ndindex (shape a))"

text \<open>\<^verbatim>\<open>np.transpose(np.where(a == x))\<close>: the coordinates of the elements equal to \<open>x\<close>.\<close>

definition argwhere_eq :: "store \<Rightarrow> ndarray \<Rightarrow> int \<Rightarrow> nat list list" where
  "argwhere_eq \<sigma> a x = filter (\<lambda>idx. item \<sigma> a idx = x) (ndindex (shape a))"

subsection \<open>Basic slicing\<close>

text \<open>
  A \<^verbatim>\<open>slice(start, stop)\<close> with non-negative bounds and no step. NumPy clips both bounds
  to the axis length, so a slice never raises; it may be shorter than asked for. More
  slices than axes raise \<^verbatim>\<open>IndexError\<close>; axes without a slice are kept whole.
\<close>

type_synonym slice = "nat \<times> nat"

definition slice_start :: "slice \<Rightarrow> nat \<Rightarrow> nat" where
  "slice_start sl d = min (fst sl) d"

definition slice_len :: "slice \<Rightarrow> nat \<Rightarrow> nat" where
  "slice_len sl d = min (snd sl) d - min (fst sl) d"

definition getitem_slices :: "ndarray \<Rightarrow> slice list \<Rightarrow> py_error + ndarray" where
  "getitem_slices a sls =
     (if length sls > ndim a then Inl IndexError
      else Inr \<lparr>base = base a,
                offset = offset a +
                  sum_list (map2 (\<lambda>(sl, d) s. int (slice_start sl d) * s)
                                 (zip sls (shape a)) (strides a)),
                shape = map2 slice_len sls (shape a) @ drop (length sls) (shape a),
                strides = strides a\<rparr>)"

subsection \<open>Broadcasting\<close>

definition broadcast_dim :: "nat \<Rightarrow> nat \<Rightarrow> nat option" where
  "broadcast_dim m n =
     (if m = n then Some m else if m = 1 then Some n else if n = 1 then Some m else None)"

fun broadcast_dims :: "nat list \<Rightarrow> nat list \<Rightarrow> nat list option" where
  "broadcast_dims (m # ms) (n # ns) =
     (case broadcast_dim m n of
        None \<Rightarrow> None
      | Some d \<Rightarrow> (case broadcast_dims ms ns of None \<Rightarrow> None | Some ds \<Rightarrow> Some (d # ds)))"
| "broadcast_dims _ _ = Some []"

text \<open>Shapes are aligned at their last axis; the shorter one is padded with ones.\<close>

definition pad_shape :: "nat \<Rightarrow> nat list \<Rightarrow> nat list" where
  "pad_shape n shp = replicate (n - length shp) 1 @ shp"

definition broadcast_shapes :: "nat list \<Rightarrow> nat list \<Rightarrow> nat list option" where
  "broadcast_shapes s t =
     (let n = max (length s) (length t) in broadcast_dims (pad_shape n s) (pad_shape n t))"

text \<open>
  The element of \<open>a\<close> that a multi-index of the broadcast result reads: the trailing
  \<open>ndim a\<close> coordinates, with coordinate 0 on every axis of length one.
\<close>

definition broadcast_item :: "store \<Rightarrow> ndarray \<Rightarrow> nat list \<Rightarrow> int" where
  "broadcast_item \<sigma> a idx =
     item \<sigma> a (map2 (\<lambda>i d. if d = 1 then 0 else i)
                      (replicate (ndim a - length idx) 0 @ drop (length idx - ndim a) idx)
                      (shape a))"

text \<open>
  \<^verbatim>\<open>np.all(a == b)\<close>. When the shapes do not broadcast, NumPy before 1.25 gives
  \<^verbatim>\<open>False\<close> for \<^verbatim>\<open>a == b\<close> (with a DeprecationWarning), and NumPy from 1.25 on raises
  \<^verbatim>\<open>ValueError\<close>. The notebook does not pin a version, so the behaviour is a parameter.
\<close>

datatype eq_mode = Lenient | Strict

definition all_equal :: "eq_mode \<Rightarrow> store \<Rightarrow> ndarray \<Rightarrow> ndarray \<Rightarrow> py_error + bool" where
  "all_equal mode \<sigma> a b =
     (case broadcast_shapes (shape a) (shape b) of
        None \<Rightarrow> (case mode of Lenient \<Rightarrow> Inr False | Strict \<Rightarrow> Inl ValueError)
      | Some shp \<Rightarrow>
          Inr (list_all (\<lambda>idx. broadcast_item \<sigma> a idx = broadcast_item \<sigma> b idx)
                        (ndindex shp)))"

subsection \<open>Indexed assignment\<close>

text \<open>
  \<^verbatim>\<open>a[slices] = v\<close>. The value must broadcast to the shape of the target region
  (leading axes of length one that the region lacks are dropped), else \<^verbatim>\<open>ValueError\<close>
  is raised and nothing is written. NumPy reads the value before it writes when the two
  overlap in memory, so the values are taken from the store as it was.
\<close>

definition broadcastable_to :: "nat list \<Rightarrow> nat list \<Rightarrow> bool" where
  "broadcastable_to src dst =
     (list_all (\<lambda>s. s = 1) (take (length src - length dst) src) \<and>
      list_all2 (\<lambda>s d. s = d \<or> s = 1)
        (drop (length src - length dst) src) (drop (length dst - length src) dst))"

definition write_all :: "(nat \<times> int) list \<Rightarrow> int list \<Rightarrow> int list" where
  "write_all ws buf = fold (\<lambda>(p, x) b. b[p := x]) ws buf"

definition setitem_slices :: "store \<Rightarrow> ndarray \<Rightarrow> slice list \<Rightarrow> ndarray \<Rightarrow> py_error + store" where
  "setitem_slices \<sigma> a sls v =
     (case getitem_slices a sls of
        Inl e \<Rightarrow> Inl e
      | Inr region \<Rightarrow>
          if broadcastable_to (shape v) (shape region)
          then let idxs = ndindex (shape region);
                   ws = zip (map (position region) idxs) (map (broadcast_item \<sigma> v) idxs)
               in Inr (\<sigma>[base a := write_all ws (\<sigma> ! base a)])
          else Inl ValueError)"

section \<open>find_submatrix\<close>

text \<open>
  The function returns the empty tuple when the pattern is not 2-D or has more axes
  than the array, and the pair of the location list and the slice list otherwise.
\<close>

datatype find_result = EmptyTuple | Lists "nat list list" "slice list list"

text \<open>\<^verbatim>\<open>small_mat[0][0]\<close> of a 2-D array: each index raises on an axis of length zero.\<close>

definition corner :: "store \<Rightarrow> ndarray \<Rightarrow> py_error + int" where
  "corner \<sigma> small_mat =
     (if shape small_mat ! 0 = 0 then Inl IndexError
      else if shape small_mat ! 1 = 0 then Inl IndexError
      else Inr (item \<sigma> small_mat [0, 0]))"

text \<open>
  The slices of one candidate: length one on every leading axis, the pattern's row and
  column count on the last two axes. A candidate has at least two coordinates here.
\<close>

definition candidate_slices :: "nat list \<Rightarrow> nat list \<Rightarrow> slice list" where
  "candidate_slices cand shp =
     map (\<lambda>j. (cand ! j, cand ! j + 1)) [0..<length cand - 2] @
     [(cand ! (length cand - 2), cand ! (length cand - 2) + shp ! (length shp - 2)),
      (cand ! (length cand - 1), cand ! (length cand - 1) + shp ! (length shp - 1))]"

fun find_loop ::
  "eq_mode \<Rightarrow> store \<Rightarrow> ndarray \<Rightarrow> ndarray \<Rightarrow> nat list list \<Rightarrow>
   nat list list \<times> slice list list \<Rightarrow> py_error + nat list list \<times> slice list list" where
  "find_loop mode \<sigma> big_mat small_mat [] acc = Inr acc"
| "find_loop mode \<sigma> big_mat small_mat (cand # cands) (location_list, nslice_list) =
     (let nslice = candidate_slices cand (shape small_mat) in
      case getitem_slices big_mat nslice of
        Inl e \<Rightarrow> Inl e
      | Inr test_mat \<Rightarrow>
          (case all_equal mode \<sigma> test_mat small_mat of
             Inl e \<Rightarrow> Inl e
           | Inr matches \<Rightarrow>
               if matches
               then find_loop mode \<sigma> big_mat small_mat cands
                      (location_list @ [cand], nslice_list @ [nslice])
               else find_loop mode \<sigma> big_mat small_mat cands (location_list, nslice_list)))"

definition find_submatrix :: "eq_mode \<Rightarrow> store \<Rightarrow> ndarray \<Rightarrow> ndarray \<Rightarrow> py_error + find_result" where
  "find_submatrix mode \<sigma> big_mat small_mat =
     (if ndim small_mat > ndim big_mat \<or> ndim small_mat \<noteq> 2 then Inr EmptyTuple
      else case corner \<sigma> small_mat of
             Inl e \<Rightarrow> Inl e
           | Inr x \<Rightarrow>
               (case find_loop mode \<sigma> big_mat small_mat (argwhere_eq \<sigma> big_mat x) ([], []) of
                  Inl e \<Rightarrow> Inl e
                | Inr (location_list, nslice_list) \<Rightarrow> Inr (Lists location_list nslice_list)))"

section \<open>The rotations\<close>

text \<open>
  \<^verbatim>\<open>m[::-1]\<close> on axis \<open>k\<close>: the view starts at the last entry of the axis and walks back.
\<close>

definition flip_axis :: "nat \<Rightarrow> ndarray \<Rightarrow> ndarray" where
  "flip_axis k a =
     a\<lparr>offset := (if shape a ! k = 0 then offset a
                  else offset a + (int (shape a ! k) - 1) * (strides a ! k)),
       strides := (strides a)[k := - (strides a ! k)]\<rparr>"

definition flipud :: "ndarray \<Rightarrow> py_error + ndarray" where
  "flipud m = (if ndim m < 1 then Inl ValueError else Inr (flip_axis 0 m))"

definition fliplr :: "ndarray \<Rightarrow> py_error + ndarray" where
  "fliplr m = (if ndim m < 2 then Inl ValueError else Inr (flip_axis 1 m))"

definition flip :: "ndarray \<Rightarrow> ndarray" where
  "flip m = fold flip_axis [0..<ndim m] m"

definition transpose_nd :: "ndarray \<Rightarrow> ndarray" where
  "transpose_nd m = m\<lparr>shape := rev (shape m), strides := rev (strides m)\<rparr>"

definition rotate_sqcw :: "ndarray \<Rightarrow> py_error + ndarray" where
  "rotate_sqcw mat = (case flipud mat of Inl e \<Rightarrow> Inl e | Inr m \<Rightarrow> Inr (transpose_nd m))"

definition rotate_sqcc :: "ndarray \<Rightarrow> py_error + ndarray" where
  "rotate_sqcc mat = (case fliplr mat of Inl e \<Rightarrow> Inl e | Inr m \<Rightarrow> Inr (transpose_nd m))"

definition rotate_180 :: "ndarray \<Rightarrow> py_error + ndarray" where
  "rotate_180 mat = Inr (flip mat)"

section \<open>rot_submatrix\<close>

text \<open>
  A call ends by raising or by returning; it returns \<^verbatim>\<open>None\<close> or the array it was
  given. The store after the call is part of the result in both cases.
\<close>

datatype outcome = Raised py_error | Returned "ndarray option"

text \<open>\<^verbatim>\<open>big_mat[tuple(nslice[0])] = rot_small_mat; return big_mat\<close>\<close>

definition write_back ::
  "store \<Rightarrow> ndarray \<Rightarrow> slice list \<Rightarrow> py_error + ndarray \<Rightarrow> store \<times> outcome" where
  "write_back \<sigma> big_mat sls rot =
     (case rot of
        Inl e \<Rightarrow> (\<sigma>, Raised e)
      | Inr rot_small_mat \<Rightarrow>
          (case setitem_slices \<sigma> big_mat sls rot_small_mat of
             Inl e \<Rightarrow> (\<sigma>, Raised e)
           | Inr \<sigma>' \<Rightarrow> (\<sigma>', Returned (Some big_mat))))"

text \<open>\<^verbatim>\<open>find_submatrix(big_mat, small_mat)[1]\<close>: the empty tuple has no index 1.\<close>

definition second :: "find_result \<Rightarrow> py_error + slice list list" where
  "second r = (case r of EmptyTuple \<Rightarrow> Inl IndexError | Lists locs sls \<Rightarrow> Inr sls)"

definition rot_submatrix ::
  "eq_mode \<Rightarrow> store \<Rightarrow> ndarray \<Rightarrow> ndarray \<Rightarrow> int \<Rightarrow> store \<times> outcome" where
  "rot_submatrix mode \<sigma> big_mat small_mat increment =
     (if ndim small_mat \<noteq> 2 then (\<sigma>, Returned None)
      else if shape small_mat ! 0 \<noteq> shape small_mat ! 1 then (\<sigma>, Returned None)
      else case find_submatrix mode \<sigma> big_mat small_mat of
             Inl e \<Rightarrow> (\<sigma>, Raised e)
           | Inr r \<Rightarrow>
               (case second r of
                  Inl e \<Rightarrow> (\<sigma>, Raised e)
                | Inr [] \<Rightarrow> (\<sigma>, Returned None)
                | Inr (first # rest) \<Rightarrow>
                    if \<bar>increment\<bar> mod 4 = 0 then (\<sigma>, Returned (Some big_mat))
                    else if \<bar>increment\<bar> mod 2 = 0
                      then write_back \<sigma> big_mat first (rotate_180 small_mat)
                    else if increment mod 4 = 1
                      then write_back \<sigma> big_mat first (rotate_sqcw small_mat)
                    else if increment mod 4 = 3
                      then write_back \<sigma> big_mat first (rotate_sqcc small_mat)
                    else (\<sigma>, Returned None)))"

section \<open>The arrays of the notebook\<close>

text \<open>
  Buffer 0 holds \<^verbatim>\<open>big_mat\<close> of shape (2, 3, 4), buffer 1 holds \<^verbatim>\<open>small_mat\<close> of
  shape (2, 2), both as \<^verbatim>\<open>np.array\<close> lays them out.
\<close>

definition ref_buffer :: "int list" where
  "ref_buffer = [5,2,5,0, 4,5,6,0, 7,8,9,0,  0,0,0,0, 1,5,6,0, 1,8,9,5]"

definition ref_store :: store where
  "ref_store = [ref_buffer, [5,6, 8,9]]"

definition ref_big :: ndarray where
  "ref_big = np_array 0 [2, 3, 4]"

definition ref_small :: ndarray where
  "ref_small = np_array 1 [2, 2]"

text \<open>The notebook's array after the first match was turned clockwise, and counter-clockwise.\<close>

definition ref_store_cw :: store where
  "ref_store_cw = [[5,2,5,0, 4,8,5,0, 7,9,6,0,  0,0,0,0, 1,5,6,0, 1,8,9,5], [5,6, 8,9]]"

definition ref_store_cc :: store where
  "ref_store_cc = [[5,2,5,0, 4,6,9,0, 7,5,8,0,  0,0,0,0, 1,5,6,0, 1,8,9,5], [5,6, 8,9]]"

text \<open>The coordinates at which two stores give an array different elements.\<close>

definition changed :: "store \<Rightarrow> store \<Rightarrow> ndarray \<Rightarrow> nat list list" where
  "changed \<sigma> \<sigma>' a = filter (\<lambda>idx. item \<sigma>' a idx \<noteq> item \<sigma> a idx) (ndindex (shape a))"

section \<open>Further inputs\<close>

text \<open>
  \<^verbatim>\<open>np.array([[1,2],[3,5]])\<close> and the pattern \<^verbatim>\<open>np.array([[5,5],[5,5]])\<close>: the pattern's
  corner value sits in the last row and last column of the array.
\<close>

definition edge_store :: store where
  "edge_store = [[1,2, 3,5], [5,5, 5,5]]"

definition edge_big :: ndarray where
  "edge_big = np_array 0 [2, 2]"

definition edge_small :: ndarray where
  "edge_small = np_array 1 [2, 2]"

text \<open>
  \<^verbatim>\<open>np.array([[1,2,3],[4,5,6],[7,8,9]])\<close> and the 3 by 3 pattern
  \<^verbatim>\<open>np.array([[5,6,0],[8,9,0],[0,0,0]])\<close>: the region at the only candidate is cut to
  2 by 2, which does not broadcast against 3 by 3.
\<close>

definition clip_store :: store where
  "clip_store = [[1,2,3, 4,5,6, 7,8,9], [5,6,0, 8,9,0, 0,0,0]]"

definition clip_big :: ndarray where
  "clip_big = np_array 0 [3, 3]"

definition clip_small :: ndarray where
  "clip_small = np_array 1 [3, 3]"

text \<open>The 1-D array \<^verbatim>\<open>np.array([5,6])\<close> with the notebook's pattern.\<close>

definition line_store :: store where
  "line_store = [[5,6], [5,6, 8,9]]"

definition line_big :: ndarray where
  "line_big = np_array 0 [2]"

text \<open>The notebook's array with the empty square pattern \<^verbatim>\<open>np.zeros((0,0))\<close>.\<close>

definition void_store :: store where
  "void_store = [ref_buffer, []]"

definition void_small :: ndarray where
  "void_small = np_array 1 [0, 0]"

text \<open>The notebook's array with the pattern \<^verbatim>\<open>np.array([[3,3],[3,3]])\<close>, which it lacks.\<close>

definition absent_store :: store where
  "absent_store = [ref_buffer, [3,3, 3,3]]"

text \<open>
  The pattern taken out of the array itself, \<^verbatim>\<open>small_mat = big_mat[0, 1:3, 1:3]\<close>: a view
  on the array's buffer, starting at element 5 with the array's last two strides.
\<close>

definition alias_store :: store where
  "alias_store = [ref_buffer]"

definition alias_small :: ndarray where
  "alias_small = \<lparr>base = 0, offset = 5, shape = [2, 2], strides = [4, 1]\<rparr>"

section \<open>Facts about the model\<close>

subsection \<open>Python's remainder\<close>

text \<open>
  Python's \<^verbatim>\<open>%\<close> with a positive divisor is the floor remainder, which is \<open>mod\<close> on
  \<open>int\<close>. The tests on \<^verbatim>\<open>abs(increment)\<close> are tests on \<^verbatim>\<open>increment\<close>.
\<close>

lemma abs_mod_4: "(\<bar>i\<bar> mod 4 = 0) = (i mod 4 = (0::int))"
  by presburger

lemma abs_mod_2: "(\<bar>i\<bar> mod 2 = 0) = (i mod 2 = (0::int))"
  by presburger

lemma odd_turns: "i mod 4 = 1 \<or> i mod 4 = 3 \<Longrightarrow> i mod 4 \<noteq> 0 \<and> i mod 2 \<noteq> (0::int)"
  by presburger

subsection \<open>The rotations, element by element\<close>

text \<open>
  The three helpers build the views the notebook's comments describe: for a matrix of
  \<open>r\<close> rows and \<open>c\<close> columns, the element at row \<open>i\<close> and column \<open>j\<close> moves to
  \<open>[j, r-1-i]\<close> clockwise, to \<open>[c-1-j, i]\<close> counter-clockwise, and to \<open>[r-1-i, c-1-j]\<close>
  under the half turn.
\<close>

lemma shape_2d: "ndim M = 2 \<Longrightarrow> \<exists>r c. shape M = [r, c]"
  by (auto simp: ndim_def length_Suc_conv numeral_2_eq_2)

lemma strides_2d: "ndim M = 2 \<Longrightarrow> well_formed M \<Longrightarrow> \<exists>s0 s1. strides M = [s0, s1]"
  by (auto simp: ndim_def well_formed_def length_Suc_conv numeral_2_eq_2)

lemma rotate_sqcw_item:
  assumes "shape M = [r, c]" "strides M = [s0, s1]" "i < r" "j < c"
  shows "\<exists>W. rotate_sqcw M = Inr W \<and> shape W = [c, r] \<and>
             item \<sigma> W [j, r - 1 - i] = item \<sigma> M [i, j]"
proof -
  have "int (r - 1 - i) = int r - 1 - int i"
    using assms by simp
  then show ?thesis
    using assms
    by (simp add: rotate_sqcw_def flipud_def ndim_def flip_axis_def transpose_nd_def
        item_def position_def algebra_simps)
qed

lemma rotate_sqcc_item:
  assumes "shape M = [r, c]" "strides M = [s0, s1]" "i < r" "j < c"
  shows "\<exists>W. rotate_sqcc M = Inr W \<and> shape W = [c, r] \<and>
             item \<sigma> W [c - 1 - j, i] = item \<sigma> M [i, j]"
proof -
  have "int (c - 1 - j) = int c - 1 - int j"
    using assms by simp
  then show ?thesis
    using assms
    by (simp add: rotate_sqcc_def fliplr_def ndim_def flip_axis_def transpose_nd_def
        item_def position_def algebra_simps)
qed

lemma rotate_180_item:
  assumes "shape M = [r, c]" "strides M = [s0, s1]" "i < r" "j < c"
  shows "\<exists>W. rotate_180 M = Inr W \<and> shape W = [r, c] \<and>
             item \<sigma> W [r - 1 - i, c - 1 - j] = item \<sigma> M [i, j]"
proof -
  have "int (r - 1 - i) = int r - 1 - int i" and "int (c - 1 - j) = int c - 1 - int j"
    using assms by simp_all
  then show ?thesis
    using assms
    by (simp add: rotate_180_def flip_def ndim_def flip_axis_def item_def position_def
        algebra_simps numeral_2_eq_2)
qed

subsection \<open>What an assignment can touch\<close>

lemma setitem_slices_other_buffer:
  "setitem_slices \<sigma> a sls v = Inr \<sigma>' \<Longrightarrow> b \<noteq> base a \<Longrightarrow> \<sigma>' ! b = \<sigma> ! b"
  by (auto simp: setitem_slices_def Let_def split: sum.splits if_splits)

lemma write_back_other_buffer:
  "b \<noteq> base a \<Longrightarrow> fst (write_back \<sigma> a sls rot) ! b = \<sigma> ! b"
  by (auto simp: write_back_def dest: setitem_slices_other_buffer split: sum.splits)

lemma rot_submatrix_other_buffer:
  "b \<noteq> base big_mat \<Longrightarrow> fst (rot_submatrix mode \<sigma> big_mat small_mat increment) ! b = \<sigma> ! b"
  by (simp add: rot_submatrix_def write_back_other_buffer split: sum.split list.split)

lemma elements_same_buffer:
  "\<sigma>' ! base a = \<sigma> ! base a \<Longrightarrow> elements \<sigma>' a = elements \<sigma> a"
  by (simp add: elements_def item_def)

subsection \<open>The notebook's call, evaluated\<close>

text \<open>
  In none of these runs does a comparison meet shapes that fail to broadcast, so both
  behaviours of \<^verbatim>\<open>==\<close> give the same result.
\<close>

lemma ref_find:
  "find_submatrix mode ref_store ref_big ref_small =
     Inr (Lists [[0, 1, 1], [1, 1, 1]]
                [[(0, 1), (1, 3), (1, 3)], [(1, 2), (1, 3), (1, 3)]])"
  by (induct mode; code_simp)

lemma ref_small_square:
  "ndim ref_small = 2 \<and> shape ref_small ! 0 = shape ref_small ! 1 \<and> well_formed ref_small"
  by code_simp

lemma ref_turn_16:
  "rot_submatrix mode ref_store ref_big ref_small 16 = (ref_store, Returned (Some ref_big))"
  by (induct mode; code_simp)

lemma ref_turn_1:
  "rot_submatrix mode ref_store ref_big ref_small 1 = (ref_store_cw, Returned (Some ref_big))"
  by (induct mode; code_simp)

lemma ref_write_cw:
  "write_back ref_store ref_big [(0, 1), (1, 3), (1, 3)] (rotate_sqcw ref_small) =
     (ref_store_cw, Returned (Some ref_big))"
  by code_simp

lemma ref_write_cc:
  "write_back ref_store ref_big [(0, 1), (1, 3), (1, 3)] (rotate_sqcc ref_small) =
     (ref_store_cc, Returned (Some ref_big))"
  by code_simp

lemma ref_rotations:
  "map_sum id (elements ref_store) (rotate_sqcw ref_small) = Inr [8,5, 9,6] \<and>
   map_sum id (elements ref_store) (rotate_sqcc ref_small) = Inr [6,9, 5,8]"
  by code_simp

lemma ref_region_cw:
  "map_sum id (\<lambda>region. (shape region, elements ref_store_cw region))
     (getitem_slices ref_big [(0, 1), (1, 3), (1, 3)]) = Inr ([1, 2, 2], [8,5, 9,6])"
  by code_simp

lemma ref_region_cc:
  "map_sum id (\<lambda>region. (shape region, elements ref_store_cc region))
     (getitem_slices ref_big [(0, 1), (1, 3), (1, 3)]) = Inr ([1, 2, 2], [6,9, 5,8])"
  by code_simp

lemma ref_changed_cw:
  "changed ref_store ref_store_cw ref_big = [[0, 1, 1], [0, 1, 2], [0, 2, 1], [0, 2, 2]]"
  by code_simp

subsection \<open>The further inputs, evaluated\<close>

lemma edge_candidates: "argwhere_eq edge_store edge_big 5 = [[1, 1]]"
  by code_simp

lemma edge_shapes: "shape edge_big = [2, 2] \<and> shape edge_small = [2, 2]"
  by code_simp

lemma edge_find:
  "find_submatrix mode edge_store edge_big edge_small = Inr (Lists [[1, 1]] [[(1, 3), (1, 3)]])"
  by (induct mode; code_simp)

lemma edge_region:
  "map_sum id (\<lambda>region. (shape region, elements edge_store region))
     (getitem_slices edge_big [(1, 3), (1, 3)]) = Inr ([1, 1], [5])"
  by code_simp

lemma edge_turn:
  "rot_submatrix mode edge_store edge_big edge_small 1 = (edge_store, Raised ValueError)"
  by (induct mode; code_simp)

lemma clip_find:
  "find_submatrix Lenient clip_store clip_big clip_small = Inr (Lists [] []) \<and>
   find_submatrix Strict clip_store clip_big clip_small = Inl ValueError"
  by code_simp

lemma line_find:
  "ndim line_big = 1 \<and> find_submatrix mode line_store line_big ref_small = Inr EmptyTuple"
  by (induct mode; code_simp)

lemma line_turn:
  "rot_submatrix mode line_store line_big ref_small 1 = (line_store, Raised IndexError)"
  by (induct mode; code_simp)

lemma void_find:
  "ndim void_small = 2 \<and> find_submatrix mode void_store ref_big void_small = Inl IndexError"
  by (induct mode; code_simp)

lemma absent_find:
  "find_submatrix mode absent_store ref_big ref_small = Inr (Lists [] [])"
  by (induct mode; code_simp)

lemma absent_turn:
  "rot_submatrix mode absent_store ref_big ref_small 1 = (absent_store, Returned None)"
  by (induct mode; code_simp)

lemma alias_elements:
  "elements alias_store alias_small = [5,6, 8,9] \<and>
   elements (fst (rot_submatrix Lenient alias_store ref_big alias_small 1)) alias_small = [8,5, 9,6] \<and>
   elements (fst (rot_submatrix Strict alias_store ref_big alias_small 1)) alias_small = [8,5, 9,6]"
  by code_simp

section \<open>The claims\<close>

text \<open>
  C1, on the input that breaks it. Every placement should come with a region of the
  array that has the pattern's shape and the pattern's elements. For the array
  \<^verbatim>\<open>[[1,2],[3,5]]\<close> and the pattern \<^verbatim>\<open>[[5,5],[5,5]]\<close>, \<open>find_submatrix\<close> returns the
  placement at \<open>(1, 1)\<close> with the slices \<open>1:3, 1:3\<close>, and the region those slices take
  out of the array has shape (1, 1) and the single element 5, while the pattern has shape
  (2, 2): the slice was cut at the array's edge and the comparison broadcast it.
\<close>

theorem find_submatrix_region_of_other_shape:
  "find_submatrix mode edge_store edge_big edge_small =
     Inr (Lists [[1, 1]] [[(1, 3), (1, 3)]]) \<and>
   map_sum id (\<lambda>region. (shape region, elements edge_store region))
     (getitem_slices edge_big [(1, 3), (1, 3)]) = Inr ([1, 1], [5]) \<and>
   shape edge_small = [2, 2]"
  using edge_find [of mode] edge_region edge_shapes
  by blast

text \<open>
  C2, on the inputs that break it. A candidate whose region would leave the array should
  be skipped, without an error and without being recorded. In the array \<^verbatim>\<open>[[1,2],[3,5]]\<close>
  the only candidate for the pattern \<^verbatim>\<open>[[5,5],[5,5]]\<close> is \<open>(1, 1)\<close>; its region would end
  at row 3 and column 3 of an array with two rows and two columns, and it is recorded.
  With a 3 by 3 pattern whose region is cut to 2 by 2, the candidate is skipped where
  \<^verbatim>\<open>==\<close> tolerates the shapes, and \<^verbatim>\<open>ValueError\<close> is raised where it does not.
\<close>

theorem find_submatrix_records_candidate_at_edge:
  "argwhere_eq edge_store edge_big 5 = [[1, 1]] \<and>
   shape edge_big ! 0 < 1 + shape edge_small ! 0 \<and>
   shape edge_big ! 1 < 1 + shape edge_small ! 1 \<and>
   find_submatrix mode edge_store edge_big edge_small =
     Inr (Lists [[1, 1]] [[(1, 3), (1, 3)]]) \<and>
   find_submatrix Strict clip_store clip_big clip_small = Inl ValueError"
  by (simp add: edge_candidates edge_shapes edge_find clip_find)

text \<open>
  C3, as the code has it. When \<open>find_submatrix\<close> returns its two lists and the list of
  slices is empty, \<open>rot_submatrix\<close> leaves the store as it was and raises nothing, and the
  call returns \<^verbatim>\<open>None\<close>: the function ends without a \<^verbatim>\<open>return\<close> statement.
\<close>

theorem rot_submatrix_no_placement:
  "find_submatrix mode \<sigma> big_mat small_mat = Inr (Lists locs []) \<Longrightarrow>
   rot_submatrix mode \<sigma> big_mat small_mat increment = (\<sigma>, Returned None)"
  by (simp add: rot_submatrix_def second_def)

theorem rot_submatrix_no_placement_witness:
  "find_submatrix Strict absent_store ref_big ref_small = Inr (Lists [] []) \<and>
   rot_submatrix Strict absent_store ref_big ref_small 3 = (absent_store, Returned None)"
  using rot_submatrix_no_placement [OF absent_find, of Strict 3] absent_find [of Strict]
  by simp

text \<open>
  C3 as the specification states it fails: the notebook's array holds no 3, the search
  for \<^verbatim>\<open>[[3,3],[3,3]]\<close> returns two empty lists, and the call does not return the array.
\<close>

theorem rot_submatrix_no_placement_counterexample:
  "find_submatrix Lenient absent_store ref_big ref_small = Inr (Lists [] []) \<and>
   rot_submatrix Lenient absent_store ref_big ref_small 1 \<noteq>
     (absent_store, Returned (Some ref_big))"
  by (simp add: absent_find absent_turn)

text \<open>
  C4, on the inputs that break it. Neither function is total. For the 1-D array
  \<^verbatim>\<open>[5,6]\<close> and the notebook's pattern, \<open>find_submatrix\<close> returns the empty tuple and
  \<open>rot_submatrix\<close> raises \<^verbatim>\<open>IndexError\<close> when it takes component 1 of it. For the empty
  pattern of shape (0, 0), \<open>find_submatrix\<close> raises \<^verbatim>\<open>IndexError\<close> at
  \<^verbatim>\<open>small_mat[0][0]\<close>. For the placement at the edge of \<^verbatim>\<open>[[1,2],[3,5]]\<close>,
  \<open>rot_submatrix\<close> raises \<^verbatim>\<open>ValueError\<close> when it assigns a 2 by 2 block to a 1 by 1
  region. The store is the same after each raise.
\<close>

theorem rot_submatrix_raises:
  "rot_submatrix mode line_store line_big ref_small 1 = (line_store, Raised IndexError) \<and>
   find_submatrix mode void_store ref_big void_small = Inl IndexError \<and>
   rot_submatrix mode edge_store edge_big edge_small 1 = (edge_store, Raised ValueError)"
  by (simp add: line_turn void_find edge_turn)

text \<open>
  C5. When \<^verbatim>\<open>increment\<close> is a multiple of 4, \<open>rot_submatrix\<close> leaves every buffer of the
  store as it was, for every array and every pattern, whatever the call returns. On the
  notebook's array and pattern with \<^verbatim>\<open>increment = 16\<close> the call returns the array, and
  the store is the one it started from.
\<close>

theorem rot_submatrix_full_turns:
  "(increment mod 4 = 0 \<longrightarrow> fst (rot_submatrix mode \<sigma> big_mat small_mat increment) = \<sigma>) \<and>
   rot_submatrix mode ref_store ref_big ref_small 16 = (ref_store, Returned (Some ref_big))"
  by (simp add: rot_submatrix_def abs_mod_4 ref_turn_16 [unfolded rot_submatrix_def]
      split: sum.split list.split)

theorem rot_submatrix_full_turns_witness:
  "(-8 :: int) mod 4 = 0 \<and>
   fst (rot_submatrix Lenient ref_store ref_big ref_small (-8)) = ref_store"
  using rot_submatrix_full_turns [of "-8" Lenient ref_store ref_big ref_small]
  by simp

text \<open>
  C6. On the notebook's array and pattern with \<^verbatim>\<open>increment = 1\<close>, the first placement
  is at \<open>(0, 1, 1)\<close> with the slices \<open>0:1, 1:3, 1:3\<close>; the call returns the array; the
  region at those slices then reads \<^verbatim>\<open>[[8,5],[9,6]]\<close>, which is \<open>rotate_sqcw\<close> of the
  pattern; and the coordinates whose element changed are the four of that region.
\<close>

theorem rot_submatrix_reference_quarter_turn:
  "find_submatrix mode ref_store ref_big ref_small =
     Inr (Lists [[0, 1, 1], [1, 1, 1]]
                [[(0, 1), (1, 3), (1, 3)], [(1, 2), (1, 3), (1, 3)]]) \<and>
   rot_submatrix mode ref_store ref_big ref_small 1 = (ref_store_cw, Returned (Some ref_big)) \<and>
   map_sum id (\<lambda>region. (shape region, elements ref_store_cw region))
     (getitem_slices ref_big [(0, 1), (1, 3), (1, 3)]) = Inr ([1, 2, 2], [8,5, 9,6]) \<and>
   map_sum id (elements ref_store) (rotate_sqcw ref_small) = Inr [8,5, 9,6] \<and>
   changed ref_store ref_store_cw ref_big = [[0, 1, 1], [0, 1, 2], [0, 2, 1], [0, 2, 2]]"
  using ref_find [of mode] ref_turn_1 [of mode] ref_region_cw ref_rotations ref_changed_cw
  by blast

text \<open>
  C7. For every 2-D matrix, square or not, the counter-clockwise quarter turn of its
  clockwise quarter turn is the matrix itself: neither helper raises, and the view that
  comes back has the offset, the shape and the strides of the one that went in, hence
  the same elements in every store.
\<close>

theorem rotate_sqcc_rotate_sqcw:
  assumes "ndim M = 2" and "well_formed M"
  shows "\<exists>W. rotate_sqcw M = Inr W \<and> rotate_sqcc W = Inr M \<and>
             (\<forall>\<sigma>. map_sum id (elements \<sigma>) (rotate_sqcc W) = Inr (elements \<sigma> M))"
proof -
  obtain r c where shp: "shape M = [r, c]"
    using assms(1) shape_2d by blast
  obtain s0 s1 where str: "strides M = [s0, s1]"
    using assms strides_2d by blast
  have "rotate_sqcc (transpose_nd (flip_axis 0 M)) = Inr M"
    using shp str
    by (cases "r = 0")
       (simp_all add: rotate_sqcc_def fliplr_def ndim_def flip_axis_def transpose_nd_def
          algebra_simps)
  moreover have "rotate_sqcw M = Inr (transpose_nd (flip_axis 0 M))"
    using shp by (simp add: rotate_sqcw_def flipud_def ndim_def)
  ultimately show ?thesis
    by simp
qed

theorem rotate_sqcc_rotate_sqcw_witness:
  "ndim ref_small = 2 \<and> well_formed ref_small \<and>
   (\<exists>W. rotate_sqcw ref_small = Inr W \<and> rotate_sqcc W = Inr ref_small)"
  using rotate_sqcc_rotate_sqcw [of ref_small] ref_small_square
  by blast

text \<open>
  C8. When the pattern is not 2-D, or has more axes than the array, \<open>find_submatrix\<close>
  returns the empty tuple and raises nothing.
\<close>

theorem find_submatrix_unsuitable_pattern:
  "ndim small_mat \<noteq> 2 \<or> ndim big_mat < ndim small_mat \<Longrightarrow>
   find_submatrix mode \<sigma> big_mat small_mat = Inr EmptyTuple"
  by (auto simp: find_submatrix_def)

theorem find_submatrix_unsuitable_pattern_witness:
  "ndim line_big = 1 \<and>
   find_submatrix Lenient ref_store ref_big line_big = Inr EmptyTuple \<and>
   ndim ref_small = 2 \<and>
   find_submatrix Lenient line_store line_big ref_small = Inr EmptyTuple"
  using
    find_submatrix_unsuitable_pattern [of line_big ref_big Lenient ref_store]
    find_submatrix_unsuitable_pattern [of ref_small line_big Lenient line_store]
    line_find [of Lenient] ref_small_square
  by simp

text \<open>
  C9. For a square 2-D pattern with a placement, an \<^verbatim>\<open>increment\<close> whose floor remainder
  by 4 is 1 makes \<open>rot_submatrix\<close> assign \<open>rotate_sqcw\<close> of the pattern to the region of
  the first placement, and one whose floor remainder is 3 makes it assign \<open>rotate_sqcc\<close>
  of the pattern. The remainder of a negative \<^verbatim>\<open>increment\<close> is not negative: -3 turns
  clockwise and -1 counter-clockwise.
\<close>

theorem rot_submatrix_odd_turns:
  assumes "ndim small_mat = 2"
    and "shape small_mat ! 0 = shape small_mat ! 1"
    and "find_submatrix mode \<sigma> big_mat small_mat = Inr (Lists locs (first # rest))"
  shows "(increment mod 4 = 1 \<longrightarrow>
            rot_submatrix mode \<sigma> big_mat small_mat increment =
              write_back \<sigma> big_mat first (rotate_sqcw small_mat)) \<and>
         (increment mod 4 = 3 \<longrightarrow>
            rot_submatrix mode \<sigma> big_mat small_mat increment =
              write_back \<sigma> big_mat first (rotate_sqcc small_mat))"
  using assms odd_turns [of increment]
  by (simp add: rot_submatrix_def second_def abs_mod_4 abs_mod_2)

theorem rot_submatrix_odd_turns_witness:
  "(-3 :: int) mod 4 = 1 \<and>
   rot_submatrix Lenient ref_store ref_big ref_small (-3) =
     (ref_store_cw, Returned (Some ref_big)) \<and>
   (-1 :: int) mod 4 = 3 \<and>
   rot_submatrix Lenient ref_store ref_big ref_small (-1) =
     (ref_store_cc, Returned (Some ref_big)) \<and>
   map_sum id (\<lambda>region. (shape region, elements ref_store_cc region))
     (getitem_slices ref_big [(0, 1), (1, 3), (1, 3)]) = Inr ([1, 2, 2], [6,9, 5,8])"
proof -
  have sq: "ndim ref_small = 2" "shape ref_small ! 0 = shape ref_small ! 1"
    using ref_small_square by simp_all
  have "rot_submatrix Lenient ref_store ref_big ref_small (-3) =
          write_back ref_store ref_big [(0, 1), (1, 3), (1, 3)] (rotate_sqcw ref_small)"
    using rot_submatrix_odd_turns [OF sq ref_find, where increment = "-3"] by simp
  moreover have "rot_submatrix Lenient ref_store ref_big ref_small (-1) =
          write_back ref_store ref_big [(0, 1), (1, 3), (1, 3)] (rotate_sqcc ref_small)"
    using rot_submatrix_odd_turns [OF sq ref_find, where increment = "-1"] by simp
  moreover have "(-3 :: int) mod 4 = 1" and "(-1 :: int) mod 4 = 3"
    by simp_all
  ultimately show ?thesis
    using ref_write_cw ref_write_cc ref_region_cc by metis
qed

text \<open>
  C10, as the code has it. The helpers take and return views and never touch the store.
  \<open>rot_submatrix\<close> writes only into the buffer of the array, so a pattern that lives in
  another buffer has the same elements after the call, however the call ends.
\<close>

theorem rot_submatrix_keeps_separate_pattern:
  "base small_mat \<noteq> base big_mat \<Longrightarrow>
   elements (fst (rot_submatrix mode \<sigma> big_mat small_mat increment)) small_mat =
     elements \<sigma> small_mat"
  by (rule elements_same_buffer) (rule rot_submatrix_other_buffer)

theorem rot_submatrix_keeps_separate_pattern_witness:
  "base ref_small = 1 \<and> base ref_big = 0 \<and>
   elements (fst (rot_submatrix Lenient ref_store ref_big ref_small 1)) ref_small =
     [5,6, 8,9]"
proof -
  have b: "base ref_small = 1" "base ref_big = 0"
    by (simp_all add: ref_small_def ref_big_def np_array_def)
  have "elements ref_store ref_small = [5,6, 8,9]"
    by code_simp
  then show ?thesis
    using rot_submatrix_keeps_separate_pattern [of ref_small ref_big Lenient ref_store 1] b
    by simp
qed

text \<open>
  C10 as stated fails when the pattern is a view on the array: for
  \<^verbatim>\<open>small_mat = big_mat[0, 1:3, 1:3]\<close> the pattern reads \<^verbatim>\<open>[[5,6],[8,9]]\<close> before the call
  with \<^verbatim>\<open>increment = 1\<close> and \<^verbatim>\<open>[[8,5],[9,6]]\<close> after it.
\<close>

theorem rot_submatrix_changes_aliased_pattern_counterexample:
  "base alias_small = base ref_big \<and>
   elements alias_store alias_small = [5,6, 8,9] \<and>
   elements (fst (rot_submatrix Lenient alias_store ref_big alias_small 1)) alias_small =
     [8,5, 9,6] \<and>
   elements (fst (rot_submatrix Lenient alias_store ref_big alias_small 1)) alias_small \<noteq>
     elements alias_store alias_small"
proof -
  have "base alias_small = base ref_big"
    by (simp add: alias_small_def ref_big_def np_array_def)
  then show ?thesis
    using alias_elements by simp
qed

end
